theory Spec2Isabelle
  imports Main "HOL-Library.Word"
begin

section \<open>Go values shared by the handlers\<close>

text \<open>
  A Go run-time panic (a failed type assertion, a call of a \<open>reflect\<close> method on an
  invalid value) is a value of its own, so that every panicking path of the source is a
  branch of the model.
\<close>

datatype panic = Panic string

text \<open>
  The dynamic values that Terraform's schema layer hands to a resource as
  \<open>interface{}\<close>: the Go types \<open>string\<close>, \<open>int\<close>, \<open>int64\<close>, \<open>bool\<close>,
  \<open>[]interface{}\<close> and \<open>map[string]interface{}\<close>. The constructor is the dynamic
  type of the value; \<open>int\<close> is the 64-bit \<open>int\<close> of the platforms the provider is
  built for, so that the conversion \<open>int64(v)\<close> keeps the bits.
\<close>

datatype go_any =
    AString string
  | AInt "64 word"
  | AInt64 "64 word"
  | ABool bool
  | AList "go_any list"
  | AMap "string \<Rightarrow> go_any option"

section \<open>FSx OpenZFS: disk IOPS configuration (openzfs\_file\_system.go)\<close>

text \<open>\<open>fsx.DiskIopsConfiguration\<close>: both fields are pointers in the SDK.\<close>

record DiskIopsConfiguration =
  Iops :: "64 word option"
  Mode :: "string option"

text \<open>
  \<open>expandOpenzfsFileDiskIopsConfiguration\<close>. The unchecked assertion
  \<open>cfg[0].(map[string]interface{})\<close> panics on any other dynamic type; the two
  comma-ok assertions on the map entries do not.
\<close>

definition expandOpenzfsFileDiskIopsConfiguration ::
  "go_any list \<Rightarrow> panic + DiskIopsConfiguration option" where
  "expandOpenzfsFileDiskIopsConfiguration cfg =
     (if length cfg < 1 then Inr None
      else case hd cfg of
        AMap conf \<Rightarrow>
          (let out = \<lparr>Iops = None, Mode = None\<rparr>;
               out = (case conf ''mode'' of
                        Some (AString v) \<Rightarrow> if length v > 0 then out\<lparr>Mode := Some v\<rparr> else out
                      | _ \<Rightarrow> out);
               out = (case conf ''iops'' of
                        Some (AInt v) \<Rightarrow> out\<lparr>Iops := Some v\<rparr>
                      | _ \<Rightarrow> out)
           in Inr (Some out))
      | _ \<Rightarrow> Inl (Panic ''interface conversion: interface {} is not map[string]interface {}''))"

text \<open>
  \<open>flattenOpenzfsFileDiskIopsConfiguration\<close>. \<open>aws.Int64Value\<close> returns an
  \<open>int64\<close>, which is what the map entry then holds.
\<close>

definition flattenOpenzfsFileDiskIopsConfiguration ::
  "DiskIopsConfiguration option \<Rightarrow> go_any list" where
  "flattenOpenzfsFileDiskIopsConfiguration rs =
     (case rs of
        None \<Rightarrow> []
      | Some r \<Rightarrow>
          (let m = Map.empty;
               m = (case Mode r of Some s \<Rightarrow> m(''mode'' \<mapsto> AString s) | None \<Rightarrow> m);
               m = (case Iops r of Some i \<Rightarrow> m(''iops'' \<mapsto> AInt64 i) | None \<Rightarrow> m)
           in [AMap m]))"

text \<open>The composition of the two conversions, a panic of the first passed through.\<close>

definition disk_iops_round_trip :: "go_any list \<Rightarrow> panic + go_any list" where
  "disk_iops_round_trip cfg =
     (case expandOpenzfsFileDiskIopsConfiguration cfg of
        Inl p \<Rightarrow> Inl p
      | Inr rs \<Rightarrow> Inr (flattenOpenzfsFileDiskIopsConfiguration rs))"

section \<open>Properties of the disk IOPS conversions\<close>

text \<open>
  C5, as stated, fails: the configuration list that maps \<open>mode\<close> to \<open>AUTOMATIC\<close> and
  \<open>iops\<close> to the \<open>int\<close> 3000 does not come back as itself, because the flattened
  entry holds an \<open>int64\<close>.
\<close>

theorem disk_iops_round_trip_counterexample:
  "disk_iops_round_trip [AMap [''mode'' \<mapsto> AString ''AUTOMATIC'', ''iops'' \<mapsto> AInt 3000]]
     \<noteq> Inr [AMap [''mode'' \<mapsto> AString ''AUTOMATIC'', ''iops'' \<mapsto> AInt 3000]]"
proof
  assume "disk_iops_round_trip [AMap [''mode'' \<mapsto> AString ''AUTOMATIC'', ''iops'' \<mapsto> AInt 3000]]
     = Inr [AMap [''mode'' \<mapsto> AString ''AUTOMATIC'', ''iops'' \<mapsto> AInt 3000]]"
  then have "[''mode'' \<mapsto> AString ''AUTOMATIC'', ''iops'' \<mapsto> AInt64 3000]
     = [''mode'' \<mapsto> AString ''AUTOMATIC'', ''iops'' \<mapsto> AInt 3000]"
    by (simp add: disk_iops_round_trip_def expandOpenzfsFileDiskIopsConfiguration_def
        flattenOpenzfsFileDiskIopsConfiguration_def)
  then have "[''mode'' \<mapsto> AString ''AUTOMATIC'', ''iops'' \<mapsto> AInt64 3000] ''iops''
     = [''mode'' \<mapsto> AString ''AUTOMATIC'', ''iops'' \<mapsto> AInt 3000] ''iops''"
    by (rule arg_cong [where f = "\<lambda>m. m ''iops''"])
  then show False by simp
qed

text \<open>
  C5, amended: for a one-element configuration list whose element has exactly the keys
  \<open>mode\<close> (a non-empty string) and \<open>iops\<close> (an \<open>int\<close>), expanding and then
  flattening returns the same list with the \<open>iops\<close> entry carried as an \<open>int64\<close> of
  the same value; expanding the empty list gives the nil pointer and flattening the nil
  pointer gives the empty list.
\<close>

theorem disk_iops_round_trip_int64:
  "(dom conf = {''mode'', ''iops''} \<and> conf ''mode'' = Some (AString s) \<and> s \<noteq> []
      \<and> conf ''iops'' = Some (AInt i)
    \<longrightarrow> disk_iops_round_trip [AMap conf] = Inr [AMap (conf(''iops'' \<mapsto> AInt64 i))])
   \<and> expandOpenzfsFileDiskIopsConfiguration [] = Inr None
   \<and> flattenOpenzfsFileDiskIopsConfiguration None = []"
proof (intro conjI impI)
  assume h: "dom conf = {''mode'', ''iops''} \<and> conf ''mode'' = Some (AString s) \<and> s \<noteq> []
      \<and> conf ''iops'' = Some (AInt i)"
  have "[''mode'' \<mapsto> AString s, ''iops'' \<mapsto> AInt64 i] = conf(''iops'' \<mapsto> AInt64 i)"
  proof (rule ext)
    fix k
    show "[''mode'' \<mapsto> AString s, ''iops'' \<mapsto> AInt64 i] k = (conf(''iops'' \<mapsto> AInt64 i)) k"
    proof (cases "k = ''iops'' \<or> k = ''mode''")
      case True
      then show ?thesis using h by auto
    next
      case False
      then have "k \<notin> dom conf" using h by auto
      then have "conf k = None" by (simp add: domIff)
      then show ?thesis using False by simp
    qed
  qed
  then show "disk_iops_round_trip [AMap conf] = Inr [AMap (conf(''iops'' \<mapsto> AInt64 i))]"
    using h
    by (simp add: disk_iops_round_trip_def expandOpenzfsFileDiskIopsConfiguration_def
        flattenOpenzfsFileDiskIopsConfiguration_def)
next
  show "expandOpenzfsFileDiskIopsConfiguration [] = Inr None"
    by (simp add: expandOpenzfsFileDiskIopsConfiguration_def)
next
  show "flattenOpenzfsFileDiskIopsConfiguration None = []"
    by (simp add: flattenOpenzfsFileDiskIopsConfiguration_def)
qed

theorem disk_iops_round_trip_int64_witness:
  "disk_iops_round_trip [AMap [''mode'' \<mapsto> AString ''AUTOMATIC'', ''iops'' \<mapsto> AInt 3000]]
     = Inr [AMap [''mode'' \<mapsto> AString ''AUTOMATIC'', ''iops'' \<mapsto> AInt64 3000]]"
proof -
  have d: "dom [''mode'' \<mapsto> AString ''AUTOMATIC'', ''iops'' \<mapsto> AInt 3000] = {''mode'', ''iops''}"
    by auto
  show ?thesis
    using d disk_iops_round_trip_int64
      [of "[''mode'' \<mapsto> AString ''AUTOMATIC'', ''iops'' \<mapsto> AInt 3000]" "''AUTOMATIC''" 3000]
    by simp
qed

end
